theory Spec2Isabelle
  imports Main "HOL-Library.Sublist"
begin

section \<open>The quota ledger (agent/quota\_manager.py)\<close>

text \<open>
  \<^verbatim>\<open>QuotaManager\<close> keeps two SQLite tables: \<^verbatim>\<open>quotas\<close>, one row per key id, and
  \<^verbatim>\<open>metadata\<close>, whose only row is \<^verbatim>\<open>last_reset\<close>. The content of the database is the
  state; every method takes it and returns it updated.

  A point in time is an integer number of microseconds (the resolution of Python's
  \<^verbatim>\<open>datetime\<close>) since midnight UTC of the epoch day. The code stores times with
  \<^verbatim>\<open>isoformat\<close> and reads them back with \<^verbatim>\<open>fromisoformat\<close>, which gives the same instant,
  so the text columns that hold times are modelled by the instant itself. Every clock
  read \<^verbatim>\<open>datetime.now(timezone.utc)\<close> is a parameter of the method that makes it.

  The counters \<^verbatim>\<open>failure_count\<close> and \<^verbatim>\<open>backoff_count\<close> are \<^verbatim>\<open>INTEGER DEFAULT 0\<close> columns
  which the code writes only as the default, as \<^verbatim>\<open>n + 1\<close> and as \<^verbatim>\<open>MAX(0, n - 2)\<close>; they
  are natural numbers here. The column \<^verbatim>\<open>exhausted_at\<close> is read by \<^verbatim>\<open>is_exhausted\<close> and
  written by no method.
\<close>

type_synonym timestamp = int

definition seconds :: "int \<Rightarrow> int" where
  \<comment> \<open>\<^verbatim>\<open>timedelta(seconds=n)\<close> in microseconds\<close>
  "seconds n = n * 1000000"

definition day :: int where
  "day = seconds 86400"

record quota_row =
  exhausted_at :: "string option"
  failure_count :: nat
  last_failure :: "timestamp option"
  temp_exhausted_until :: "timestamp option"
  backoff_count :: nat

record ledger =
  quotas :: "string \<rightharpoonup> quota_row"
  last_reset :: "timestamp option"

definition default_row :: quota_row where
  \<comment> \<open>the column defaults of a row that an \<^verbatim>\<open>INSERT\<close> creates\<close>
  "default_row = \<lparr>exhausted_at = None, failure_count = 0, last_failure = None,
     temp_exhausted_until = None, backoff_count = 0\<rparr>"

definition empty_db :: ledger where
  \<comment> \<open>the two tables right after \<^verbatim>\<open>CREATE TABLE\<close>\<close>
  "empty_db = \<lparr>quotas = Map.empty, last_reset = None\<rparr>"

definition init_db :: "ledger option \<Rightarrow> ledger" where
  \<comment> \<open>\<^verbatim>\<open>CREATE TABLE IF NOT EXISTS\<close>: a database file that is not there starts empty\<close>
  "init_db db = (case db of None \<Rightarrow> empty_db | Some L \<Rightarrow> L)"

definition generate_key_id :: "(string \<Rightarrow> string) \<Rightarrow> string \<Rightarrow> string \<Rightarrow> string" where
  \<comment> \<open>\<^verbatim>\<open>fp\<close> stands for \<^verbatim>\<open>hashlib.sha256(api_key.encode()).hexdigest()[:12]\<close>\<close>
  "generate_key_id fp api_key model = fp api_key @ ''_'' @ model"

definition reset_time_today :: "timestamp \<Rightarrow> timestamp" where
  \<comment> \<open>\<^verbatim>\<open>now_utc.replace(hour=8, minute=0, second=0, microsecond=0)\<close>\<close>
  "reset_time_today now_utc = now_utc - now_utc mod day + seconds (8 * 3600)"

definition check_reset :: "timestamp \<Rightarrow> ledger \<Rightarrow> ledger" where
  "check_reset now_utc L =
     (let should_reset =
            (case last_reset L of
               None \<Rightarrow> True
             | Some lr \<Rightarrow> reset_time_today now_utc \<le> now_utc \<and> lr < reset_time_today now_utc)
      in if should_reset then L\<lparr>quotas := Map.empty, last_reset := Some now_utc\<rparr> else L)"

definition QuotaManager_init :: "timestamp \<Rightarrow> ledger option \<Rightarrow> ledger" where
  \<comment> \<open>\<^verbatim>\<open>__init__\<close>: \<^verbatim>\<open>_init_db()\<close>, then \<^verbatim>\<open>_check_reset()\<close>\<close>
  "QuotaManager_init now_utc db = check_reset now_utc (init_db db)"

definition truthy :: "string option \<Rightarrow> bool" where
  \<comment> \<open>Python's truth value of a \<^verbatim>\<open>TEXT\<close> column: neither \<^verbatim>\<open>NULL\<close> nor the empty string\<close>
  "truthy v = (case v of None \<Rightarrow> False | Some s \<Rightarrow> s \<noteq> [])"

definition is_exhausted ::
  "(string \<Rightarrow> string) \<Rightarrow> timestamp \<Rightarrow> timestamp \<Rightarrow> string \<Rightarrow> string \<Rightarrow> ledger \<Rightarrow> bool \<times> ledger" where
  \<comment> \<open>\<^verbatim>\<open>now_reset\<close> is the clock read of \<^verbatim>\<open>_check_reset\<close>, \<^verbatim>\<open>now\<close> the one of the cooldown test\<close>
  "is_exhausted fp now_reset now api_key model L =
     (let L1 = check_reset now_reset L;
          key_id = generate_key_id fp api_key model
      in case quotas L1 key_id of
           None \<Rightarrow> (False, L1)
         | Some row \<Rightarrow>
             if truthy (exhausted_at row) then (True, L1)
             else
               (case temp_exhausted_until row of
                  Some until_dt \<Rightarrow>
                    if now < until_dt then (True, L1)
                    else (3 \<le> failure_count row,
                          L1\<lparr>quotas := (quotas L1)(key_id \<mapsto> row\<lparr>temp_exhausted_until := None\<rparr>)\<rparr>)
                | None \<Rightarrow> (3 \<le> failure_count row, L1)))"

definition backoff_seconds :: "nat \<Rightarrow> nat" where
  \<comment> \<open>\<^verbatim>\<open>min(30 * (2 ** (new_count - 1)), 960)\<close>\<close>
  "backoff_seconds new_count = min (30 * 2 ^ (new_count - 1)) 960"

definition mark_exhausted ::
  "(string \<Rightarrow> string) \<Rightarrow> timestamp \<Rightarrow> string \<Rightarrow> string \<Rightarrow> ledger \<Rightarrow> ledger" where
  "mark_exhausted fp now api_key model L =
     (let key_id = generate_key_id fp api_key model;
          current_count = (case quotas L key_id of Some row \<Rightarrow> backoff_count row | None \<Rightarrow> 0);
          new_count = current_count + 1;
          until = now + seconds (int (backoff_seconds new_count))
      in L\<lparr>quotas := (quotas L)(key_id \<mapsto>
           (case quotas L key_id of
              None \<Rightarrow> default_row\<lparr>temp_exhausted_until := Some until, backoff_count := new_count\<rparr>
            | Some row \<Rightarrow> row\<lparr>temp_exhausted_until := Some until, backoff_count := new_count\<rparr>))\<rparr>)"


definition mark_failure ::
  "(string \<Rightarrow> string) \<Rightarrow> timestamp \<Rightarrow> string \<Rightarrow> string \<Rightarrow> ledger \<Rightarrow> ledger" where
  "mark_failure fp now api_key model L =
     (let key_id = generate_key_id fp api_key model
      in L\<lparr>quotas := (quotas L)(key_id \<mapsto>
           (case quotas L key_id of
              None \<Rightarrow> default_row\<lparr>failure_count := 1, last_failure := Some now\<rparr>
            | Some row \<Rightarrow> row\<lparr>failure_count := failure_count row + 1, last_failure := Some now\<rparr>))\<rparr>)"

definition mark_success :: "(string \<Rightarrow> string) \<Rightarrow> string \<Rightarrow> string \<Rightarrow> ledger \<Rightarrow> ledger" where
  \<comment> \<open>an \<^verbatim>\<open>UPDATE ... WHERE key_id = ?\<close>: no row, no change\<close>
  "mark_success fp api_key model L =
     (let key_id = generate_key_id fp api_key model
      in case quotas L key_id of
           None \<Rightarrow> L
         | Some row \<Rightarrow>
             L\<lparr>quotas := (quotas L)(key_id \<mapsto>
                 row\<lparr>failure_count := 0, last_failure := None, temp_exhausted_until := None,
                     backoff_count := nat (max 0 (int (backoff_count row) - 2))\<rparr>)\<rparr>)"

definition sample_fp :: "string \<Rightarrow> string" where
  \<comment> \<open>a stand-in fingerprint for the concrete runs below\<close>
  "sample_fp api_key = take 12 api_key"

section \<open>The rotation scheduler (agent/robotic\_arm.py)\<close>

text \<open>
  \<^verbatim>\<open>_get_available_model_and_keys\<close> asks the quota manager about every key of every
  model in priority order. Each question may change the ledger and reads the clock, so
  the ledger is a state \<^verbatim>\<open>'s\<close> threaded through the questions and the question itself
  is the parameter \<^verbatim>\<open>q\<close>: \<^verbatim>\<open>q s key model\<close> is the answer of
  \<^verbatim>\<open>self.core.quota_manager.is_exhausted(key_str, model)\<close> in state \<^verbatim>\<open>s\<close>, with the state
  it leaves. The keys are the secret values of \<^verbatim>\<open>config.GEMINI_API_KEYS\<close>.
\<close>

definition model_priority :: "string list" where
  "model_priority = [''gemini-2.5-flash'', ''gemini-2.5-flash-lite'', ''gemini-3-flash'']"

definition priority_order :: "string option \<Rightarrow> string list" where
  \<comment> \<open>\<^verbatim>\<open>if preferred_model:\<close> is false for \<^verbatim>\<open>None\<close> and for the empty string\<close>
  "priority_order preferred_model =
     (case preferred_model of
        None \<Rightarrow> model_priority
      | Some p \<Rightarrow>
          if p = [] then model_priority
          else [p] @ filter (\<lambda>m. m \<noteq> p) model_priority)"

fun available_keys ::
  "('s \<Rightarrow> string \<Rightarrow> string \<Rightarrow> bool \<times> 's) \<Rightarrow> 's \<Rightarrow> string list \<Rightarrow> string \<Rightarrow> string list \<times> 's" where
  "available_keys q s [] model = ([], s)"
| "available_keys q s (key # keys) model =
     (case q s key model of
        (exhausted, s1) \<Rightarrow>
          (case available_keys q s1 keys model of
             (rest, s2) \<Rightarrow> (if \<not> exhausted then key # rest else rest, s2)))"

fun scan_models ::
  "('s \<Rightarrow> string \<Rightarrow> string \<Rightarrow> bool \<times> 's) \<Rightarrow> 's \<Rightarrow> string list \<Rightarrow> string list
     \<Rightarrow> (string \<times> string list) option \<times> 's" where
  "scan_models q s api_keys [] = (None, s)"
| "scan_models q s api_keys (model # models) =
     (case available_keys q s api_keys model of
        (keys, s1) \<Rightarrow>
          if keys \<noteq> [] then (Some (model, keys), s1)
          else scan_models q s1 api_keys models)"

definition get_available_model_and_keys ::
  "('s \<Rightarrow> string \<Rightarrow> string \<Rightarrow> bool \<times> 's) \<Rightarrow> 's \<Rightarrow> string list \<Rightarrow> string option
     \<Rightarrow> (string option \<times> string list) \<times> 's" where
  "get_available_model_and_keys q s api_keys preferred_model =
     (let order = priority_order preferred_model
      in case scan_models q s api_keys order of
           (Some (model, keys), s1) \<Rightarrow> ((Some model, keys), s1)
         | (None, s1) \<Rightarrow>
             (case api_keys of
                k0 # _ \<Rightarrow> ((Some (hd order), [k0]), s1)
              | [] \<Rightarrow> ((None, []), s1)))"

text \<open>
  What the ledger reports, written down for the statements below: the answers to the
  questions about one model, key by key, and the list of every model of an order with
  the keys that were answered "not exhausted", when the models are asked about one
  after the other.
\<close>

fun answers ::
  "('s \<Rightarrow> string \<Rightarrow> string \<Rightarrow> bool \<times> 's) \<Rightarrow> 's \<Rightarrow> string list \<Rightarrow> string \<Rightarrow> bool list" where
  "answers q s [] model = []"
| "answers q s (key # keys) model =
     fst (q s key model) # answers q (snd (q s key model)) keys model"

fun ledger_reports ::
  "('s \<Rightarrow> string \<Rightarrow> string \<Rightarrow> bool \<times> 's) \<Rightarrow> 's \<Rightarrow> string list \<Rightarrow> string list
     \<Rightarrow> (string \<times> string list) list" where
  "ledger_reports q s api_keys [] = []"
| "ledger_reports q s api_keys (model # models) =
     (model, map fst (filter (\<lambda>(key, exhausted). \<not> exhausted) (zip api_keys (answers q s api_keys model))))
       # ledger_reports q (snd (available_keys q s api_keys model)) api_keys models"

text \<open>
  The question as the scheduler puts it to the ledger above, both clock reads of a call
  at \<^verbatim>\<open>now\<close>, and a ledger for the concrete runs below: at 08:30 of the second day
  \<^verbatim>\<open>key1\<close> is cooling down for every model, and \<^verbatim>\<open>key2\<close> has failed three times for
  \<^verbatim>\<open>gemini-2.5-flash-lite\<close> and once for \<^verbatim>\<open>gemini-3-flash\<close>.
\<close>

definition ask_ledger ::
  "(string \<Rightarrow> string) \<Rightarrow> timestamp \<Rightarrow> ledger \<Rightarrow> string \<Rightarrow> string \<Rightarrow> bool \<times> ledger" where
  "ask_ledger fp now L key model = is_exhausted fp now now key model L"

definition sample_ledger :: ledger where
  "sample_ledger = \<lparr>quotas = [
      ''key1_gemini-2.5-flash'' \<mapsto>
         default_row\<lparr>temp_exhausted_until := Some 117030000000, backoff_count := 1\<rparr>,
      ''key1_gemini-2.5-flash-lite'' \<mapsto>
         default_row\<lparr>temp_exhausted_until := Some 117030000000, backoff_count := 1\<rparr>,
      ''key1_gemini-3-flash'' \<mapsto>
         default_row\<lparr>temp_exhausted_until := Some 117030000000, backoff_count := 1\<rparr>,
      ''key2_gemini-2.5-flash-lite'' \<mapsto>
         default_row\<lparr>failure_count := 3, last_failure := Some 116900000000\<rparr>,
      ''key2_gemini-3-flash'' \<mapsto>
         default_row\<lparr>failure_count := 1, last_failure := Some 116900000000\<rparr>],
     last_reset = Some 116000000000\<rparr>"

section \<open>The event interceptor (agent/pilot/core.py)\<close>

text \<open>
  Modelled from the spec: the classes \<^verbatim>\<open>CaptchaResponse\<close> and \<^verbatim>\<open>CaptchaPayload\<close> of
  \<^verbatim>\<open>hcaptcha_challenger.models\<close>, which are not among the sources. The spec has the
  verdict as a pass/fail signal with token data and the payload as an opaque description
  of the round with its prompt text. The handler and the controller read \<^verbatim>\<open>is_pass\<close> of
  the first and hand the second on as it is.
\<close>

record captcha_response =
  is_pass :: bool
  pass_data :: string

record captcha_payload =
  requester_question :: string

text \<open>
  The two \<^verbatim>\<open>asyncio.Queue\<close>s are lists: \<^verbatim>\<open>put_nowait\<close> appends, \<^verbatim>\<open>get_nowait\<close> takes the
  head.

  Of a network response the handler uses the URL, the \<^verbatim>\<open>content-type\<close> header, the parsed
  JSON body and, for a binary body, what the page-side decoder and \<^verbatim>\<open>msgpack\<close> make of it.
  Of the JSON body it uses the truth values of \<^verbatim>\<open>data.get("pass")\<close> and
  \<^verbatim>\<open>data.get("request_config")\<close> and the objects \<^verbatim>\<open>CaptchaResponse(**data)\<close> and
  \<^verbatim>\<open>CaptchaPayload(**data)\<close>; \<^verbatim>\<open>None\<close> stands for a call that raises.
\<close>

record json_data =
  pass_field :: bool
  request_config_field :: bool
  as_response :: "captcha_response option"
  as_payload :: "captcha_payload option"

record response =
  url :: string
  content_type :: "string option"
  json :: "json_data option"
  binary_decoded :: "captcha_payload option"

record queues =
  captcha_response_queue :: "captcha_response list"
  captcha_payload_queue :: "captcha_payload option list"

fun drain :: "'a list \<Rightarrow> 'a list" where
  \<comment> \<open>\<^verbatim>\<open>while not queue.empty(): queue.get_nowait()\<close>\<close>
  "drain [] = []"
| "drain (x # xs) = drain xs"

definition put_nowait :: "'a \<Rightarrow> 'a list \<Rightarrow> 'a list" where
  "put_nowait x queue = queue @ [x]"

definition task_handler :: "response \<Rightarrow> queues \<Rightarrow> queues" where
  "task_handler response Q =
     (if suffix ''/hsw.js'' (url response) then Q
      else if sublist ''/getcaptcha/'' (url response) then
        (if content_type response = Some ''application/json'' then
           (case json response of
              None \<Rightarrow> Q\<lparr>captcha_payload_queue := put_nowait None (captcha_payload_queue Q)\<rparr>
            | Some data \<Rightarrow>
                if pass_field data then
                  (let Q1 = Q\<lparr>captcha_response_queue := drain (captcha_response_queue Q)\<rparr>
                   in case as_response data of
                        Some cr \<Rightarrow> Q1\<lparr>captcha_response_queue := put_nowait cr (captcha_response_queue Q1)\<rparr>
                      | None \<Rightarrow> Q1\<lparr>captcha_payload_queue := put_nowait None (captcha_payload_queue Q1)\<rparr>)
                else if request_config_field data then
                  (case as_payload data of
                     Some p \<Rightarrow> Q\<lparr>captcha_payload_queue := put_nowait (Some p) (captcha_payload_queue Q)\<rparr>
                   | None \<Rightarrow> Q\<lparr>captcha_payload_queue := put_nowait None (captcha_payload_queue Q)\<rparr>)
                else Q)
         else Q\<lparr>captcha_payload_queue := put_nowait (binary_decoded response) (captcha_payload_queue Q)\<rparr>)
      else if sublist ''/checkcaptcha/'' (url response) then
        (case json response of
           None \<Rightarrow> Q
         | Some data \<Rightarrow>
             (case as_response data of
                Some cr \<Rightarrow> Q\<lparr>captcha_response_queue := put_nowait cr (captcha_response_queue Q)\<rparr>
              | None \<Rightarrow> Q))
      else Q)"

text \<open>Verdicts and responses for the concrete runs below.\<close>

definition stale_verdict :: captcha_response where
  "stale_verdict = \<lparr>is_pass = False, pass_data = ''E0_failed''\<rparr>"

definition passing_verdict :: captcha_response where
  "passing_verdict = \<lparr>is_pass = True, pass_data = ''P1_token''\<rparr>"

definition checkcaptcha_response :: "captcha_response \<Rightarrow> response" where
  \<comment> \<open>the answer to a submission, carrying the verdict \<^verbatim>\<open>cr\<close>\<close>
  "checkcaptcha_response cr =
     \<lparr>url = ''https://api.hcaptcha.com/checkcaptcha/site/key'',
      content_type = Some ''application/json'',
      json = Some \<lparr>pass_field = is_pass cr, request_config_field = False,
                   as_response = Some cr, as_payload = None\<rparr>,
      binary_decoded = None\<rparr>"

definition getcaptcha_pass_response :: "captcha_response \<Rightarrow> response" where
  \<comment> \<open>a \<^verbatim>\<open>getcaptcha\<close> answer whose JSON body has a true \<^verbatim>\<open>pass\<close>\<close>
  "getcaptcha_pass_response cr =
     \<lparr>url = ''https://api.hcaptcha.com/getcaptcha/site'',
      content_type = Some ''application/json'',
      json = Some \<lparr>pass_field = True, request_config_field = False,
                   as_response = Some cr, as_payload = None\<rparr>,
      binary_decoded = None\<rparr>"

section \<open>The session controller (agent/agent.py, agent/config.py)\<close>

text \<open>
  \<^verbatim>\<open>AgentV.wait_for_challenge\<close> is a loop over \<^verbatim>\<open>self.state\<close>. What the loop awaits comes
  from outside and is the input of an iteration:
  \<^item> how \<^verbatim>\<open>asyncio.wait_for(self._solve_captcha_flow(), timeout=120)\<close> ends: it returns
    \<^verbatim>\<open>True\<close>, returns \<^verbatim>\<open>False\<close>, raises \<^verbatim>\<open>asyncio.TimeoutError\<close> or raises another exception;
    and the payload that \<^verbatim>\<open>review_challenge_type\<close> stored in \<^verbatim>\<open>arm.captcha_payload\<close> on the
    way, if it stored one;
  \<^item> how \<^verbatim>\<open>asyncio.wait([res_task, pay_task], timeout=RESPONSE_TIMEOUT,
    return_when=FIRST_COMPLETED)\<close> ends: the set \<^verbatim>\<open>done\<close> with the results of its tasks,
    or an exception.
  \<^verbatim>\<open>page.reload()\<close> and \<^verbatim>\<open>click_checkbox()\<close> are counted; the sleeps and the log lines
  are left out, and \<^verbatim>\<open>page.reload()\<close> is taken to return.
\<close>

datatype solve_state = INIT | CHALLENGE_PENDING | CHALLENGING | SUBMITTED | SUCCESS | FAILURE

datatype challenge_signal = Signal_SUCCESS | Signal_FAILURE
  \<comment> \<open>\<^verbatim>\<open>ChallengeSignal.SUCCESS\<close> and \<^verbatim>\<open>ChallengeSignal.FAILURE\<close>, the two values returned\<close>

record agent_config =
  MAX_CHALLENGE_ATTEMPTS :: int
  MAX_RESETS :: int
  EXECUTION_TIMEOUT :: int
  RESPONSE_TIMEOUT :: int
  RETRY_ON_FAILURE :: bool

definition default_config :: agent_config where
  \<comment> \<open>the \<^verbatim>\<open>Field(default=...)\<close> values of \<^verbatim>\<open>AgentConfig\<close>, timeouts in seconds\<close>
  "default_config = \<lparr>MAX_CHALLENGE_ATTEMPTS = 4, MAX_RESETS = 1, EXECUTION_TIMEOUT = 180,
     RESPONSE_TIMEOUT = 45, RETRY_ON_FAILURE = True\<rparr>"

record agent =
  state :: solve_state
  reset_count :: int
  challenge_attempts :: int
  arm_captcha_payload :: "captcha_payload option"
  cr_list :: "captcha_response list"
  reloads :: nat
  checkbox_clicks :: nat

datatype dispatch_outcome = Returned bool | TimeoutError | OtherException

datatype wait_outcome =
  Done (res_task: "captcha_response option") (pay_task: "captcha_payload option option")
  | WaitRaised

record env =
  dispatch :: dispatch_outcome
  reviewed_payload :: "captcha_payload option"
  wait :: wait_outcome

definition cache_validated_response :: "captcha_response \<Rightarrow> agent \<Rightarrow> agent" where
  "cache_validated_response cr s = (if \<not> is_pass cr then s else s\<lparr>cr_list := cr_list s @ [cr]\<rparr>)"

definition submitted :: "agent_config \<Rightarrow> wait_outcome \<Rightarrow> agent \<Rightarrow> agent" where
  \<comment> \<open>the block \<^verbatim>\<open>if self.state == SolveState.SUBMITTED:\<close>\<close>
  "submitted cfg w s =
     (case w of
        WaitRaised \<Rightarrow> s\<lparr>state := FAILURE\<rparr>
      | Done res pay \<Rightarrow>
          if res = None \<and> pay = None then s\<lparr>state := FAILURE\<rparr>
          else
            (case pay of
               Some payload \<Rightarrow>
                 (let s1 = s\<lparr>reset_count := reset_count s + 1\<rparr>
                  in if reset_count s1 > MAX_RESETS cfg then s1\<lparr>state := FAILURE\<rparr>
                     else s1\<lparr>arm_captcha_payload := payload, state := CHALLENGE_PENDING\<rparr>)
             | None \<Rightarrow>
                 (case res of
                    Some cr \<Rightarrow>
                      if is_pass cr then (cache_validated_response cr s)\<lparr>state := SUCCESS\<rparr>
                      else if RETRY_ON_FAILURE cfg then s\<lparr>state := INIT\<rparr>
                      else s\<lparr>state := FAILURE\<rparr>
                  | None \<Rightarrow> s)))"

definition solve :: "agent_config \<Rightarrow> env \<Rightarrow> agent \<Rightarrow> agent" where
  \<comment> \<open>the block \<^verbatim>\<open>if self.state in [SolveState.INIT, SolveState.CHALLENGE_PENDING]:\<close>, with
      the \<^verbatim>\<open>SUBMITTED\<close> block that follows it in the same iteration when the dispatch
      returned \<^verbatim>\<open>True\<close>\<close>
  "solve cfg e s =
     (let s1 = (case reviewed_payload e of
                  Some payload \<Rightarrow> s\<lparr>arm_captcha_payload := Some payload\<rparr>
                | None \<Rightarrow> s)
      in case dispatch e of
           Returned result \<Rightarrow>
             if result then submitted cfg (wait e) (s1\<lparr>state := SUBMITTED\<rparr>)
             else
               (let s2 = s1\<lparr>reset_count := reset_count s1 + 1\<rparr>
                in if reset_count s2 > MAX_RESETS cfg then s2\<lparr>state := FAILURE\<rparr>
                   else s2\<lparr>reloads := reloads s2 + 1, checkbox_clicks := checkbox_clicks s2 + 1,
                           state := INIT\<rparr>)
         | TimeoutError \<Rightarrow> s1\<lparr>reloads := reloads s1 + 1, state := INIT\<rparr>
         | OtherException \<Rightarrow> s1\<lparr>reloads := reloads s1 + 1, state := INIT\<rparr>)"

definition iteration :: "agent_config \<Rightarrow> env \<Rightarrow> agent \<Rightarrow> agent" where
  \<comment> \<open>one pass through the body of the \<^verbatim>\<open>while\<close> loop\<close>
  "iteration cfg e s =
     (let s1 = s\<lparr>challenge_attempts := challenge_attempts s + 1\<rparr>
      in if challenge_attempts s1 > MAX_CHALLENGE_ATTEMPTS cfg then s1\<lparr>state := FAILURE\<rparr>
         else if state s1 = INIT \<or> state s1 = CHALLENGE_PENDING then solve cfg e s1
         else if state s1 = SUBMITTED then submitted cfg (wait e) s1
         else s1)"

definition terminal :: "agent \<Rightarrow> bool" where
  "terminal s = (state s = SUCCESS \<or> state s = FAILURE)"

definition remaining :: "agent_config \<Rightarrow> agent \<Rightarrow> nat" where
  \<comment> \<open>an upper bound on the iterations still to come\<close>
  "remaining cfg s =
     (if terminal s then 0 else 1 + nat (MAX_CHALLENGE_ATTEMPTS cfg + 1 - challenge_attempts s))"

lemma submitted_attempts: "challenge_attempts (submitted cfg w s) = challenge_attempts s"
  by (simp add: submitted_def cache_validated_response_def Let_def
      split: wait_outcome.splits option.splits)

lemma solve_attempts: "challenge_attempts (solve cfg e s) = challenge_attempts s"
  by (simp add: solve_def submitted_attempts Let_def
      split: dispatch_outcome.splits option.splits)

lemma iteration_attempts:
  "challenge_attempts (iteration cfg e s) = challenge_attempts s + 1"
  by (simp add: iteration_def solve_attempts submitted_attempts Let_def)

lemma iteration_over_limit:
  "MAX_CHALLENGE_ATTEMPTS cfg < challenge_attempts s + 1 \<Longrightarrow>
     iteration cfg e s = s\<lparr>challenge_attempts := challenge_attempts s + 1, state := FAILURE\<rparr>"
  by (simp add: iteration_def Let_def)

lemma iteration_remaining:
  "\<not> terminal s \<Longrightarrow> remaining cfg (iteration cfg e s) < remaining cfg s"
proof (cases "MAX_CHALLENGE_ATTEMPTS cfg < challenge_attempts s + 1")
  case True
  assume "\<not> terminal s"
  with True show ?thesis
    by (simp add: iteration_over_limit remaining_def terminal_def)
next
  case False
  assume "\<not> terminal s"
  with False show ?thesis
    by (simp add: remaining_def iteration_attempts)
qed

function run :: "agent_config \<Rightarrow> (nat \<Rightarrow> env) \<Rightarrow> nat \<Rightarrow> agent \<Rightarrow> agent" where
  \<comment> \<open>\<^verbatim>\<open>while self.state not in [SolveState.SUCCESS, SolveState.FAILURE]:\<close>, the \<^verbatim>\<open>i\<close>-th
      iteration with the input \<^verbatim>\<open>envs i\<close>\<close>
  "run cfg envs i s = (if terminal s then s else run cfg envs (i + 1) (iteration cfg (envs i) s))"
  by pat_completeness auto
termination
  by (relation "measure (\<lambda>(cfg, envs, i, s). remaining cfg s)") (auto simp: iteration_remaining)

declare run.simps [simp del]

definition wait_for_challenge ::
  "agent_config \<Rightarrow> bool \<Rightarrow> (nat \<Rightarrow> env) \<Rightarrow> agent \<Rightarrow> challenge_signal \<times> agent" where
  \<comment> \<open>\<^verbatim>\<open>found\<close> is the result of \<^verbatim>\<open>debug_find_captcha()\<close>\<close>
  "wait_for_challenge cfg found envs s =
     (let s0 = s\<lparr>state := INIT, reset_count := 0, challenge_attempts := 0\<rparr>
      in if \<not> found then (Signal_FAILURE, s0)
         else
           (let s1 = run cfg envs 0 s0
            in (if state s1 = SUCCESS then Signal_SUCCESS else Signal_FAILURE, s1)))"

text \<open>Sessions for the concrete runs below.\<close>

definition fresh_agent :: agent where
  \<comment> \<open>the fields as \<^verbatim>\<open>__init__\<close> sets them\<close>
  "fresh_agent = \<lparr>state = INIT, reset_count = 0, challenge_attempts = 0,
     arm_captcha_payload = None, cr_list = [], reloads = 0, checkbox_clicks = 0\<rparr>"

definition passing_round :: env where
  \<comment> \<open>the dispatch returns \<^verbatim>\<open>True\<close> and a passing verdict arrives\<close>
  "passing_round = \<lparr>dispatch = Returned True, reviewed_payload = None,
     wait = Done (Some \<lparr>is_pass = True, pass_data = ''P1_token''\<rparr>) None\<rparr>"

definition timeout_round :: env where
  "timeout_round = \<lparr>dispatch = TimeoutError, reviewed_payload = None, wait = Done None None\<rparr>"

definition failure_round :: env where
  "failure_round = \<lparr>dispatch = Returned False, reviewed_payload = None, wait = Done None None\<rparr>"

definition timeouts_then_pass :: "nat \<Rightarrow> env" where
  "timeouts_then_pass i = (if i < 2 then timeout_round else passing_round)"

definition failures_then_pass :: "nat \<Rightarrow> env" where
  "failures_then_pass i = (if i < 2 then failure_round else passing_round)"

section \<open>Properties of the quota ledger\<close>

subsection \<open>The rows that the marking methods write\<close>

lemma mark_exhausted_row:
  "quotas (mark_exhausted fp now api_key model L) (generate_key_id fp api_key model) =
     Some ((case quotas L (generate_key_id fp api_key model) of
              None \<Rightarrow> default_row | Some row \<Rightarrow> row)
       \<lparr>temp_exhausted_until :=
          Some (now + seconds (int (backoff_seconds
            ((case quotas L (generate_key_id fp api_key model) of
                None \<Rightarrow> 0 | Some row \<Rightarrow> backoff_count row) + 1)))),
        backoff_count :=
          (case quotas L (generate_key_id fp api_key model) of
             None \<Rightarrow> 0 | Some row \<Rightarrow> backoff_count row) + 1\<rparr>)"
  by (simp add: mark_exhausted_def Let_def default_row_def split: option.splits)

lemma mark_failure_row:
  "quotas (mark_failure fp now api_key model L) (generate_key_id fp api_key model) =
     Some ((case quotas L (generate_key_id fp api_key model) of
              None \<Rightarrow> default_row | Some row \<Rightarrow> row)
       \<lparr>failure_count :=
          (case quotas L (generate_key_id fp api_key model) of
             None \<Rightarrow> 0 | Some row \<Rightarrow> failure_count row) + 1,
        last_failure := Some now\<rparr>)"
  by (simp add: mark_failure_def Let_def default_row_def split: option.splits)

lemma mark_failure_last_reset: "last_reset (mark_failure fp now api_key model L) = last_reset L"
  by (simp add: mark_failure_def Let_def)

lemma three_failures_count:
  "\<exists>row. quotas (mark_failure fp t3 api_key model (mark_failure fp t2 api_key model
              (mark_failure fp t1 api_key model L))) (generate_key_id fp api_key model) = Some row
         \<and> 3 \<le> failure_count row"
  by (simp add: mark_failure_row)

subsection \<open>The reset check\<close>

lemma reset_time_today_same_day:
  assumes "later div day = now div day"
  shows "reset_time_today later = reset_time_today now"
proof -
  have "t - t mod day = t div day * day" for t
    by (simp add: minus_mod_eq_div_mult)
  with assms show ?thesis by (simp add: reset_time_today_def)
qed

lemma check_reset_fires:
  "last_reset L = None \<or>
   (\<exists>lr. last_reset L = Some lr \<and> reset_time_today now \<le> now \<and> lr < reset_time_today now)
   \<Longrightarrow> check_reset now L = \<lparr>quotas = Map.empty, last_reset = Some now\<rparr>"
  by (auto simp: check_reset_def)

lemma check_reset_idle:
  "last_reset L = Some lr \<Longrightarrow> \<not> (reset_time_today now \<le> now \<and> lr < reset_time_today now)
   \<Longrightarrow> check_reset now L = L"
  by (auto simp: check_reset_def)

lemma is_exhausted_no_row:
  "quotas (check_reset now_reset L) (generate_key_id fp api_key model) = None \<Longrightarrow>
   is_exhausted fp now_reset now api_key model L = (False, check_reset now_reset L)"
  by (simp add: is_exhausted_def Let_def)

lemma is_exhausted_frame:
  "last_reset (snd (is_exhausted fp now_reset now api_key model L))
     = last_reset (check_reset now_reset L)
   \<and> dom (quotas (snd (is_exhausted fp now_reset now api_key model L)))
     = dom (quotas (check_reset now_reset L))"
  by (auto simp: is_exhausted_def Let_def split: option.splits if_splits)

lemma is_exhausted_result:
  "fst (is_exhausted fp now_reset now api_key model L) \<longleftrightarrow>
     (\<exists>row. quotas (check_reset now_reset L) (generate_key_id fp api_key model) = Some row
        \<and> (truthy (exhausted_at row)
           \<or> (\<exists>until. temp_exhausted_until row = Some until \<and> now < until)
           \<or> 3 \<le> failure_count row))"
  by (auto simp: is_exhausted_def Let_def split: option.splits)

lemma is_exhausted_clears:
  "quotas (check_reset now_reset L) (generate_key_id fp api_key model) = Some row \<Longrightarrow>
   \<not> truthy (exhausted_at row) \<Longrightarrow> temp_exhausted_until row = Some until \<Longrightarrow> until \<le> now \<Longrightarrow>
   quotas (snd (is_exhausted fp now_reset now api_key model L)) (generate_key_id fp api_key model)
     = Some (row\<lparr>temp_exhausted_until := None\<rparr>)"
  by (simp add: is_exhausted_def Let_def)

subsection \<open>Exhaustion check\<close>

text \<open>
  Claim C4, as the code has it. \<^verbatim>\<open>is_exhausted\<close> runs the reset check first and then
  returns true exactly when the row of the key is there and \<^verbatim>\<open>exhausted_at\<close> is set, or
  \<^verbatim>\<open>temp_exhausted_until\<close> is in the future, or \<^verbatim>\<open>failure_count >= 3\<close>. On a row that is
  not exhausted for the day, a cooldown that is over is set to \<^verbatim>\<open>NULL\<close> by the check.
  Three \<^verbatim>\<open>mark_failure\<close> calls in a row make \<^verbatim>\<open>is_exhausted\<close> true whatever the cooldown
  column holds, provided the reset check of that \<^verbatim>\<open>is_exhausted\<close> call does not fire.
\<close>

theorem is_exhausted_check:
  assumes "L3 = mark_failure fp t3 api_key model (mark_failure fp t2 api_key model
                  (mark_failure fp t1 api_key model L))"
  shows "(fst (is_exhausted fp now_reset now api_key model L) \<longleftrightarrow>
           (\<exists>row. quotas (check_reset now_reset L) (generate_key_id fp api_key model) = Some row
              \<and> (truthy (exhausted_at row)
                 \<or> (\<exists>until. temp_exhausted_until row = Some until \<and> now < until)
                 \<or> 3 \<le> failure_count row)))
       \<and> (\<forall>row until.
             quotas (check_reset now_reset L) (generate_key_id fp api_key model) = Some row
             \<and> \<not> truthy (exhausted_at row) \<and> temp_exhausted_until row = Some until \<and> until \<le> now
             \<longrightarrow> quotas (snd (is_exhausted fp now_reset now api_key model L))
                   (generate_key_id fp api_key model) = Some (row\<lparr>temp_exhausted_until := None\<rparr>))
       \<and> (\<forall>lr. last_reset L = Some lr
             \<and> \<not> (reset_time_today now_reset \<le> now_reset \<and> lr < reset_time_today now_reset)
             \<longrightarrow> fst (is_exhausted fp now_reset now api_key model L3))"
proof -
  have third: "fst (is_exhausted fp now_reset now api_key model L3)"
    if lr: "last_reset L = Some lr"
      and idle: "\<not> (reset_time_today now_reset \<le> now_reset \<and> lr < reset_time_today now_reset)"
    for lr
  proof -
    from lr have "last_reset L3 = Some lr"
      by (simp add: assms mark_failure_last_reset)
    then have "check_reset now_reset L3 = L3"
      using idle by (rule check_reset_idle)
    moreover obtain row where "quotas L3 (generate_key_id fp api_key model) = Some row"
      and "3 \<le> failure_count row"
      unfolding assms using three_failures_count by blast
    ultimately show ?thesis
      by (subst is_exhausted_result) auto
  qed
  show ?thesis
    using is_exhausted_result [of fp now_reset now api_key model L]
      is_exhausted_clears [of now_reset L fp api_key model _ _ now] third
    by blast
qed

text \<open>
  A run of the theorem: a ledger last reset at 08:13:20 of the second day, asked at
  08:30 of that day. A cooldown of the key that ended at 08:20 is cleared and the key is
  free; after three failures it is reported exhausted with the cooldown column empty.
\<close>

theorem is_exhausted_check_witness:
  "is_exhausted sample_fp 117000000000 117000000000 ''key'' ''gemini-2.5-flash''
     \<lparr>quotas = [''key_gemini-2.5-flash'' \<mapsto>
          \<lparr>exhausted_at = None, failure_count = 0, last_failure = None,
           temp_exhausted_until = Some 116400000000, backoff_count = 1\<rparr>],
       last_reset = Some 116000000000\<rparr>
     = (False, \<lparr>quotas = [''key_gemini-2.5-flash'' \<mapsto>
          \<lparr>exhausted_at = None, failure_count = 0, last_failure = None,
           temp_exhausted_until = None, backoff_count = 1\<rparr>],
       last_reset = Some 116000000000\<rparr>)
   \<and> fst (is_exhausted sample_fp 117000000000 117000000000 ''key'' ''gemini-2.5-flash''
       (mark_failure sample_fp 116999999993 ''key'' ''gemini-2.5-flash''
         (mark_failure sample_fp 116999999992 ''key'' ''gemini-2.5-flash''
           (mark_failure sample_fp 116999999991 ''key'' ''gemini-2.5-flash''
              \<lparr>quotas = Map.empty, last_reset = Some 116000000000\<rparr>))))"
  using is_exhausted_check [of
      "mark_failure sample_fp 116999999993 ''key'' ''gemini-2.5-flash''
         (mark_failure sample_fp 116999999992 ''key'' ''gemini-2.5-flash''
           (mark_failure sample_fp 116999999991 ''key'' ''gemini-2.5-flash''
              \<lparr>quotas = Map.empty, last_reset = Some 116000000000\<rparr>))"
      sample_fp 116999999993 "''key''" "''gemini-2.5-flash''" 116999999992 116999999991
      "\<lparr>quotas = Map.empty, last_reset = Some 116000000000\<rparr>" 117000000000 117000000000]
  by (simp add: is_exhausted_def check_reset_def reset_time_today_def day_def seconds_def
      generate_key_id_def sample_fp_def truthy_def Let_def)

text \<open>
  Claim C4, as it is stated, fails twice. After the 08:00 boundary, on a ledger last
  reset the day before, three \<^verbatim>\<open>mark_failure\<close> calls leave a row with
  \<^verbatim>\<open>failure_count = 3\<close>, and the \<^verbatim>\<open>is_exhausted\<close> call that follows resets the table first
  and answers false. And on a row whose \<^verbatim>\<open>exhausted_at\<close> is set, \<^verbatim>\<open>is_exhausted\<close> returns
  before the cooldown test, so a cooldown that is over stays in the row.
\<close>

theorem is_exhausted_counterexample:
  "quotas (mark_failure sample_fp 116999999993 ''key'' ''gemini-2.5-flash''
       (mark_failure sample_fp 116999999992 ''key'' ''gemini-2.5-flash''
         (mark_failure sample_fp 116999999991 ''key'' ''gemini-2.5-flash''
            \<lparr>quotas = Map.empty, last_reset = Some 32400000000\<rparr>))) ''key_gemini-2.5-flash''
     = Some \<lparr>exhausted_at = None, failure_count = 3, last_failure = Some 116999999993,
          temp_exhausted_until = None, backoff_count = 0\<rparr>
   \<and> is_exhausted sample_fp 117000000000 117000000000 ''key'' ''gemini-2.5-flash''
      (mark_failure sample_fp 116999999993 ''key'' ''gemini-2.5-flash''
       (mark_failure sample_fp 116999999992 ''key'' ''gemini-2.5-flash''
         (mark_failure sample_fp 116999999991 ''key'' ''gemini-2.5-flash''
            \<lparr>quotas = Map.empty, last_reset = Some 32400000000\<rparr>)))
     = (False, \<lparr>quotas = Map.empty, last_reset = Some 117000000000\<rparr>)
   \<and> is_exhausted sample_fp 117000000000 117000000000 ''key'' ''gemini-2.5-flash''
       \<lparr>quotas = [''key_gemini-2.5-flash'' \<mapsto>
            \<lparr>exhausted_at = Some ''2024-01-01T09:00:00+00:00'', failure_count = 0,
             last_failure = None, temp_exhausted_until = Some 116000000000, backoff_count = 1\<rparr>],
         last_reset = Some 116000000000\<rparr>
     = (True, \<lparr>quotas = [''key_gemini-2.5-flash'' \<mapsto>
            \<lparr>exhausted_at = Some ''2024-01-01T09:00:00+00:00'', failure_count = 0,
             last_failure = None, temp_exhausted_until = Some 116000000000, backoff_count = 1\<rparr>],
         last_reset = Some 116000000000\<rparr>)"
  by (simp add: is_exhausted_def mark_failure_def check_reset_def reset_time_today_def day_def
      seconds_def generate_key_id_def sample_fp_def default_row_def truthy_def Let_def)

subsection \<open>Backoff\<close>

lemma backoff_seconds_sequence:
  "backoff_seconds (Suc n) = (if n < 5 then [30, 60, 120, 240, 480] ! n else 960)"
proof (cases "n < 5")
  case True
  then have "n = 0 \<or> n = 1 \<or> n = 2 \<or> n = 3 \<or> n = 4" by arith
  then show ?thesis by (auto simp: backoff_seconds_def)
next
  case False
  then have "(2::nat) ^ 5 \<le> 2 ^ n" by (intro power_increasing) auto
  then have "(960::nat) \<le> 30 * 2 ^ n" by simp
  with False show ?thesis by (simp add: backoff_seconds_def)
qed

lemma mark_exhausted_fold:
  assumes "current = (case quotas L (generate_key_id fp api_key model) of
                        None \<Rightarrow> 0 | Some row \<Rightarrow> backoff_count row)"
    and "ts \<noteq> []"
  shows "\<exists>row. quotas (fold (\<lambda>now. mark_exhausted fp now api_key model) ts L)
                  (generate_key_id fp api_key model) = Some row
           \<and> backoff_count row = current + length ts
           \<and> temp_exhausted_until row =
               Some (last ts + seconds (int (backoff_seconds (current + length ts))))"
  using assms
proof (induction ts arbitrary: L current)
  case Nil
  then show ?case by simp
next
  case (Cons t ts)
  let ?L1 = "mark_exhausted fp t api_key model L"
  have row1: "quotas ?L1 (generate_key_id fp api_key model) =
     Some ((case quotas L (generate_key_id fp api_key model) of
              None \<Rightarrow> default_row | Some row \<Rightarrow> row)
       \<lparr>temp_exhausted_until := Some (t + seconds (int (backoff_seconds (current + 1)))),
        backoff_count := current + 1\<rparr>)"
    using Cons.prems(1) by (simp add: mark_exhausted_row)
  show ?case
  proof (cases "ts = []")
    case True
    with row1 show ?thesis by simp
  next
    case False
    have "current + 1 = (case quotas ?L1 (generate_key_id fp api_key model) of
                        None \<Rightarrow> 0 | Some row \<Rightarrow> backoff_count row)"
      using row1 by simp
    from Cons.IH [OF this False] False show ?thesis by simp
  qed
qed

text \<open>
  Claim C5. Every \<^verbatim>\<open>mark_exhausted\<close> call adds one to \<^verbatim>\<open>backoff_count\<close> (a key without a
  row counts as 0) and sets \<^verbatim>\<open>temp_exhausted_until\<close> to the time of the call plus
  \<^verbatim>\<open>min(30 * 2^(backoff_count - 1), 960)\<close> seconds, \<^verbatim>\<open>backoff_count\<close> being the new count.
  So do calls one after the other, at the times \<^verbatim>\<open>ts\<close>: after them the count has grown by
  their number and the cooldown runs from the last call. Counted from 0 the cooldowns are
  30, 60, 120, 240, 480, 960 and 960 seconds from then on.
\<close>

theorem mark_exhausted_backoff:
  assumes "current = (case quotas L (generate_key_id fp api_key model) of
                        None \<Rightarrow> 0 | Some row \<Rightarrow> backoff_count row)"
    and "ts \<noteq> []"
  shows "(\<exists>row. quotas (mark_exhausted fp now api_key model L) (generate_key_id fp api_key model)
                  = Some row
            \<and> backoff_count row = current + 1
            \<and> temp_exhausted_until row =
                Some (now + seconds (int (min (30 * 2 ^ (backoff_count row - 1)) 960))))
       \<and> (\<exists>row. quotas (fold (\<lambda>now. mark_exhausted fp now api_key model) ts L)
                  (generate_key_id fp api_key model) = Some row
            \<and> backoff_count row = current + length ts
            \<and> temp_exhausted_until row =
                Some (last ts + seconds (int (min (30 * 2 ^ (backoff_count row - 1)) 960))))
       \<and> map (\<lambda>n. min (30 * 2 ^ (n - 1)) 960) [1, 2, 3, 4, 5, 6, 7]
            = [30, 60, 120, 240, 480, 960, 960 :: nat]
       \<and> (\<forall>n \<ge> 6. min (30 * 2 ^ (n - 1)) 960 = (960 :: nat))
       \<and> (\<forall>n. backoff_seconds n = min (30 * 2 ^ (n - 1)) 960)"
proof -
  have one: "\<exists>row. quotas (mark_exhausted fp now api_key model L)
                (generate_key_id fp api_key model) = Some row
            \<and> backoff_count row = current + 1
            \<and> temp_exhausted_until row =
                Some (now + seconds (int (min (30 * 2 ^ (backoff_count row - 1)) 960)))"
    using assms(1) by (simp add: mark_exhausted_row backoff_seconds_def)
  have many: "\<exists>row. quotas (fold (\<lambda>now. mark_exhausted fp now api_key model) ts L)
                  (generate_key_id fp api_key model) = Some row
            \<and> backoff_count row = current + length ts
            \<and> temp_exhausted_until row =
                Some (last ts + seconds (int (min (30 * 2 ^ (backoff_count row - 1)) 960)))"
    using mark_exhausted_fold [OF assms] by (auto simp: backoff_seconds_def)
  have late: "min (30 * 2 ^ (n - 1)) 960 = (960 :: nat)" if "6 \<le> n" for n
  proof -
    from that obtain m where "n = Suc m" and "\<not> m < 5"
      by (cases n) auto
    with backoff_seconds_sequence [of m] show ?thesis
      by (simp add: backoff_seconds_def)
  qed
  have first: "map (\<lambda>n. min (30 * 2 ^ (n - 1)) 960) [1, 2, 3, 4, 5, 6, 7]
            = [30, 60, 120, 240, 480, 960, 960 :: nat]"
    by simp
  from one many first late show ?thesis
    by (simp add: backoff_seconds_def)
qed

text \<open>
  A run of the theorem: seven calls, ten seconds apart, on a key without a row. The
  second call sets a cooldown of 60 seconds; after the seventh the count is 7 and the
  cooldown is 960 seconds from the last call.
\<close>

theorem mark_exhausted_backoff_witness:
  "quotas (mark_exhausted sample_fp 10000000 ''key'' ''gemini-2.5-flash''
       (mark_exhausted sample_fp 0 ''key'' ''gemini-2.5-flash'' empty_db)) ''key_gemini-2.5-flash''
     = Some \<lparr>exhausted_at = None, failure_count = 0, last_failure = None,
          temp_exhausted_until = Some 70000000, backoff_count = 2\<rparr>
   \<and> (\<exists>row. quotas (fold (\<lambda>now. mark_exhausted sample_fp now ''key'' ''gemini-2.5-flash'')
                [0, 10000000, 20000000, 30000000, 40000000, 50000000, 60000000] empty_db)
               ''key_gemini-2.5-flash'' = Some row
          \<and> backoff_count row = 7
          \<and> temp_exhausted_until row = Some 1020000000)"
proof -
  have "quotas (mark_exhausted sample_fp 10000000 ''key'' ''gemini-2.5-flash''
       (mark_exhausted sample_fp 0 ''key'' ''gemini-2.5-flash'' empty_db)) ''key_gemini-2.5-flash''
     = Some \<lparr>exhausted_at = None, failure_count = 0, last_failure = None,
          temp_exhausted_until = Some 70000000, backoff_count = 2\<rparr>"
    by (simp add: mark_exhausted_def empty_db_def generate_key_id_def sample_fp_def
        default_row_def backoff_seconds_def seconds_def Let_def)
  moreover have "\<exists>row. quotas (fold (\<lambda>now. mark_exhausted sample_fp now ''key'' ''gemini-2.5-flash'')
                [0, 10000000, 20000000, 30000000, 40000000, 50000000, 60000000] empty_db)
               ''key_gemini-2.5-flash'' = Some row
          \<and> backoff_count row = 7
          \<and> temp_exhausted_until row = Some 1020000000"
  proof -
    have kid: "generate_key_id sample_fp ''key'' ''gemini-2.5-flash'' = ''key_gemini-2.5-flash''"
      by (simp add: generate_key_id_def sample_fp_def)
    have h1: "(0::nat) = (case quotas empty_db (generate_key_id sample_fp ''key'' ''gemini-2.5-flash'')
                of None \<Rightarrow> 0 | Some row \<Rightarrow> backoff_count row)"
      by (simp add: empty_db_def)
    have h2: "[0, 10000000, 20000000, 30000000, 40000000, 50000000, 60000000 :: int] \<noteq> []"
      by simp
    from mark_exhausted_backoff [OF h1 h2, of 0] obtain row where
      row: "quotas (fold (\<lambda>now. mark_exhausted sample_fp now ''key'' ''gemini-2.5-flash'')
                [0, 10000000, 20000000, 30000000, 40000000, 50000000, 60000000] empty_db)
               (generate_key_id sample_fp ''key'' ''gemini-2.5-flash'') = Some row"
      and count: "backoff_count row
         = 0 + length [0, 10000000, 20000000, 30000000, 40000000, 50000000, 60000000 :: int]"
      and until: "temp_exhausted_until row =
         Some (last [0, 10000000, 20000000, 30000000, 40000000, 50000000, 60000000]
                + seconds (int (min (30 * 2 ^ (backoff_count row - 1)) 960)))"
      by blast
    from count have seven: "backoff_count row = 7" by simp
    from until have "temp_exhausted_until row = Some 1020000000"
      unfolding seven by (simp add: seconds_def)
    with row seven show ?thesis
      unfolding kid by blast
  qed
  ultimately show ?thesis by blast
qed

subsection \<open>Recovery\<close>

text \<open>
  Claim C6. \<^verbatim>\<open>mark_success\<close> is an \<^verbatim>\<open>UPDATE\<close> of the row of the key: whatever the ledger
  holds, the row has afterwards \<^verbatim>\<open>failure_count = 0\<close>, no \<^verbatim>\<open>last_failure\<close>, no
  \<^verbatim>\<open>temp_exhausted_until\<close>, and \<^verbatim>\<open>backoff_count = max(0, backoff_count_before - 2)\<close>; the
  other columns of the row, the other rows and \<^verbatim>\<open>last_reset\<close> are as before. A key
  without a row, which every method reads as zero failures and zero backoff, stays
  without one.
\<close>

theorem mark_success_recovery:
  "(\<forall>row. quotas L (generate_key_id fp api_key model) = Some row \<longrightarrow>
      (\<exists>row'. quotas (mark_success fp api_key model L) (generate_key_id fp api_key model) = Some row'
          \<and> failure_count row' = 0 \<and> last_failure row' = None
          \<and> temp_exhausted_until row' = None
          \<and> int (backoff_count row') = max 0 (int (backoff_count row) - 2)
          \<and> exhausted_at row' = exhausted_at row))
   \<and> (quotas L (generate_key_id fp api_key model) = None \<longrightarrow> mark_success fp api_key model L = L)
   \<and> (\<forall>other. other \<noteq> generate_key_id fp api_key model \<longrightarrow>
        quotas (mark_success fp api_key model L) other = quotas L other)
   \<and> last_reset (mark_success fp api_key model L) = last_reset L"
  by (simp add: mark_success_def Let_def split: option.splits)

text \<open>
  A run of the theorem: a row with four failures and a backoff count of 5 comes out with
  no failure and a backoff count of 3; a second success leaves 1, a third 0.
\<close>

theorem mark_success_recovery_witness:
  "quotas (mark_success sample_fp ''key'' ''gemini-2.5-flash''
       \<lparr>quotas = [''key_gemini-2.5-flash'' \<mapsto>
            \<lparr>exhausted_at = None, failure_count = 4, last_failure = Some 5000000,
             temp_exhausted_until = Some 485000000, backoff_count = 5\<rparr>],
         last_reset = Some 0\<rparr>) ''key_gemini-2.5-flash''
     = Some \<lparr>exhausted_at = None, failure_count = 0, last_failure = None,
          temp_exhausted_until = None, backoff_count = 3\<rparr>
   \<and> map_option backoff_count
       (quotas (mark_success sample_fp ''key'' ''gemini-2.5-flash''
         (mark_success sample_fp ''key'' ''gemini-2.5-flash''
           (mark_success sample_fp ''key'' ''gemini-2.5-flash''
             \<lparr>quotas = [''key_gemini-2.5-flash'' \<mapsto>
                  \<lparr>exhausted_at = None, failure_count = 4, last_failure = Some 5000000,
                   temp_exhausted_until = Some 485000000, backoff_count = 5\<rparr>],
               last_reset = Some 0\<rparr>))) ''key_gemini-2.5-flash'') = Some 0"
  using mark_success_recovery [of
      "\<lparr>quotas = [''key_gemini-2.5-flash'' \<mapsto>
            \<lparr>exhausted_at = None, failure_count = 4, last_failure = Some 5000000,
             temp_exhausted_until = Some 485000000, backoff_count = 5\<rparr>],
         last_reset = Some 0\<rparr>" sample_fp "''key''" "''gemini-2.5-flash''"]
  by (simp add: mark_success_def generate_key_id_def sample_fp_def Let_def)

subsection \<open>Daily reset\<close>

text \<open>
  Claim C7, as the code has it. The reset check runs when a \<^verbatim>\<open>QuotaManager\<close> is made and
  at the start of every \<^verbatim>\<open>is_exhausted\<close> call, and nowhere else. When such an access
  finds the clock at or past 08:00 UTC of the day and \<^verbatim>\<open>last_reset\<close> before that
  boundary, it deletes every row and sets \<^verbatim>\<open>last_reset\<close> to the clock. An access of
  this kind later the same day, on whatever the marking methods have made of the ledger
  in between (they leave \<^verbatim>\<open>last_reset\<close> alone), resets nothing.
\<close>

theorem daily_reset_on_check:
  assumes "last_reset L = Some lr"
    and "reset_time_today now \<le> now" and "lr < reset_time_today now"
    and "now \<le> later" and "later div day = now div day"
    and "last_reset L' = Some now"
  shows "check_reset now L = \<lparr>quotas = Map.empty, last_reset = Some now\<rparr>
       \<and> QuotaManager_init now (Some L) = \<lparr>quotas = Map.empty, last_reset = Some now\<rparr>
       \<and> is_exhausted fp now now' api_key model L =
            (False, \<lparr>quotas = Map.empty, last_reset = Some now\<rparr>)
       \<and> check_reset later L' = L'
       \<and> QuotaManager_init later (Some L') = L'
       \<and> last_reset (snd (is_exhausted fp later later' api_key model L')) = Some now
       \<and> dom (quotas (snd (is_exhausted fp later later' api_key model L'))) = dom (quotas L')"
proof -
  have c: "check_reset now L = \<lparr>quotas = Map.empty, last_reset = Some now\<rparr>"
    using assms(1-3) by (simp add: check_reset_fires)
  have i: "is_exhausted fp now now' api_key model L = (False, check_reset now L)"
    by (rule is_exhausted_no_row) (simp add: c)
  have "reset_time_today later = reset_time_today now"
    using assms(5) by (rule reset_time_today_same_day)
  with assms(2) have "\<not> (reset_time_today later \<le> later \<and> now < reset_time_today later)"
    by simp
  with assms(6) have l: "check_reset later L' = L'"
    by (rule check_reset_idle)
  from c i l assms(6) show ?thesis
    by (simp add: QuotaManager_init_def init_db_def is_exhausted_frame)
qed

text \<open>
  A run of the theorem: a ledger with one row, last reset at 09:00 of the first day, is
  asked at 08:30 of the second day and comes out empty; a row written at 08:31 is still
  there when a manager is made at 23:00.
\<close>

theorem daily_reset_on_check_witness:
  "fst (is_exhausted sample_fp 117000000000 117000000000 ''key'' ''gemini-2.5-flash''
       \<lparr>quotas = [''key_gemini-2.5-flash'' \<mapsto> default_row\<lparr>failure_count := 3\<rparr>],
         last_reset = Some 32400000000\<rparr>) = False
   \<and> snd (is_exhausted sample_fp 117000000000 117000000000 ''key'' ''gemini-2.5-flash''
       \<lparr>quotas = [''key_gemini-2.5-flash'' \<mapsto> default_row\<lparr>failure_count := 3\<rparr>],
         last_reset = Some 32400000000\<rparr>)
     = \<lparr>quotas = Map.empty, last_reset = Some 117000000000\<rparr>
   \<and> QuotaManager_init 169200000000
       (Some (mark_failure sample_fp 117060000000 ''key'' ''gemini-2.5-flash''
          \<lparr>quotas = Map.empty, last_reset = Some 117000000000\<rparr>))
     = mark_failure sample_fp 117060000000 ''key'' ''gemini-2.5-flash''
          \<lparr>quotas = Map.empty, last_reset = Some 117000000000\<rparr>"
  using daily_reset_on_check [of
      "\<lparr>quotas = [''key_gemini-2.5-flash'' \<mapsto> default_row\<lparr>failure_count := 3\<rparr>],
         last_reset = Some 32400000000\<rparr>" 32400000000 117000000000 169200000000
      "mark_failure sample_fp 117060000000 ''key'' ''gemini-2.5-flash''
          \<lparr>quotas = Map.empty, last_reset = Some 117000000000\<rparr>"
      sample_fp 117000000000 "''key''" "''gemini-2.5-flash''"]
  by (simp add: reset_time_today_def day_def seconds_def mark_failure_last_reset)

text \<open>
  Claim C7, as it is stated, fails for the accesses that write: at 08:30 of the second
  day, past the boundary and with \<^verbatim>\<open>last_reset\<close> at 09:00 of the first day, a
  \<^verbatim>\<open>mark_failure\<close> call keeps the old row of another key and leaves \<^verbatim>\<open>last_reset\<close> where
  it was.
\<close>

theorem daily_reset_counterexample:
  "reset_time_today 117000000000 \<le> 117000000000
   \<and> 32400000000 < reset_time_today 117000000000
   \<and> quotas (mark_failure sample_fp 117000000000 ''key'' ''gemini-2.5-flash''
        \<lparr>quotas = [''old_gemini-3-flash'' \<mapsto> default_row\<lparr>failure_count := 3\<rparr>],
          last_reset = Some 32400000000\<rparr>) ''old_gemini-3-flash''
      = Some (default_row\<lparr>failure_count := 3\<rparr>)
   \<and> last_reset (mark_failure sample_fp 117000000000 ''key'' ''gemini-2.5-flash''
        \<lparr>quotas = [''old_gemini-3-flash'' \<mapsto> default_row\<lparr>failure_count := 3\<rparr>],
          last_reset = Some 32400000000\<rparr>) = Some 32400000000"
  by (simp add: reset_time_today_def day_def seconds_def mark_failure_def generate_key_id_def
      sample_fp_def Let_def)




section \<open>Properties of the session controller\<close>

subsection \<open>The loop\<close>

lemma run_terminal: "terminal (run cfg envs i s)"
proof (induction cfg envs i s rule: run.induct)
  case (1 cfg envs i s)
  then show ?case by (subst run.simps) simp
qed

lemma run_attempts:
  "challenge_attempts (run cfg envs i s)
     \<le> max (challenge_attempts s + 1) (MAX_CHALLENGE_ATTEMPTS cfg + 1)"
proof (induction cfg envs i s rule: run.induct)
  case (1 cfg envs i s)
  show ?case
  proof (cases "terminal s")
    case True
    then show ?thesis by (subst run.simps) simp
  next
    case False
    show ?thesis
    proof (cases "MAX_CHALLENGE_ATTEMPTS cfg < challenge_attempts s + 1")
      case True
      then have "terminal (iteration cfg (envs i) s)"
        by (simp add: iteration_over_limit terminal_def)
      then have "run cfg envs (i + 1) (iteration cfg (envs i) s) = iteration cfg (envs i) s"
        by (subst run.simps) simp
      with False True show ?thesis
        by (subst run.simps) (simp add: iteration_attempts)
    next
      case le: False
      from "1.IH" [OF False] le False show ?thesis
        by (subst run.simps) (simp add: iteration_attempts)
    qed
  qed
qed

lemma run_over_limit:
  "\<not> terminal s \<Longrightarrow> MAX_CHALLENGE_ATTEMPTS cfg < challenge_attempts (run cfg envs i s)
     \<Longrightarrow> state (run cfg envs i s) = FAILURE"
proof (induction cfg envs i s rule: run.induct)
  case (1 cfg envs i s)
  let ?s' = "iteration cfg (envs i) s"
  from "1.prems"(1) have unfold: "run cfg envs i s = run cfg envs (i + 1) ?s'"
    by (subst run.simps) simp
  show ?case
  proof (cases "terminal ?s'")
    case True
    then have stop: "run cfg envs (i + 1) ?s' = ?s'"
      by (subst run.simps) simp
    with "1.prems"(2) unfold have "MAX_CHALLENGE_ATTEMPTS cfg < challenge_attempts s + 1"
      by (simp add: iteration_attempts)
    then have "state ?s' = FAILURE"
      by (simp add: iteration_over_limit)
    with unfold stop show ?thesis by simp
  next
    case False
    from "1.IH" [OF "1.prems"(1) False] "1.prems"(2) unfold show ?thesis by simp
  qed
qed

text \<open>
  Claim C3. Every iteration of the loop adds one to \<^verbatim>\<open>challenge_attempts\<close>. In the
  iteration in which the count passes \<^verbatim>\<open>MAX_CHALLENGE_ATTEMPTS\<close> the state becomes
  \<^verbatim>\<open>FAILURE\<close> and nothing else happens, whatever the state was and whatever the dispatch
  and the queues would have delivered. The loop therefore always ends, in a terminal
  state; a session that ends with the count over the limit ends in \<^verbatim>\<open>FAILURE\<close>, and the
  count never passes the limit plus one (or its start plus one).
\<close>

theorem attempt_limit_forces_failure:
  "challenge_attempts (iteration cfg e s) = challenge_attempts s + 1
   \<and> (MAX_CHALLENGE_ATTEMPTS cfg < challenge_attempts s + 1 \<longrightarrow>
        iteration cfg e s = s\<lparr>challenge_attempts := challenge_attempts s + 1, state := FAILURE\<rparr>)
   \<and> terminal (run cfg envs i s)
   \<and> (\<not> terminal s \<and> MAX_CHALLENGE_ATTEMPTS cfg < challenge_attempts (run cfg envs i s) \<longrightarrow>
        state (run cfg envs i s) = FAILURE)
   \<and> challenge_attempts (run cfg envs i s)
        \<le> max (challenge_attempts s + 1) (MAX_CHALLENGE_ATTEMPTS cfg + 1)"
  using iteration_attempts [of cfg e s] iteration_over_limit [of cfg s e]
    run_terminal [of cfg envs i s] run_over_limit [of s cfg envs i] run_attempts [of cfg envs i s]
  by blast

text \<open>
  A run of the theorem: with the default limit of 4, a session that has made four
  attempts fails in its fifth iteration although that round would have passed; and a
  session limited to two attempts, whose first two rounds time out, ends in \<^verbatim>\<open>FAILURE\<close>
  before the passing round is tried.
\<close>

theorem attempt_limit_forces_failure_witness:
  "iteration default_config passing_round (fresh_agent\<lparr>challenge_attempts := 4\<rparr>)
     = fresh_agent\<lparr>challenge_attempts := 5, state := FAILURE\<rparr>
   \<and> state (run (default_config\<lparr>MAX_CHALLENGE_ATTEMPTS := 2\<rparr>) timeouts_then_pass 0 fresh_agent)
     = FAILURE
   \<and> challenge_attempts
       (run (default_config\<lparr>MAX_CHALLENGE_ATTEMPTS := 2\<rparr>) timeouts_then_pass 0 fresh_agent) = 3"
proof -
  have "iteration default_config passing_round (fresh_agent\<lparr>challenge_attempts := 4\<rparr>)
     = fresh_agent\<lparr>challenge_attempts := 5, state := FAILURE\<rparr>"
    using attempt_limit_forces_failure [of default_config passing_round
        "fresh_agent\<lparr>challenge_attempts := 4\<rparr>"]
    by (simp add: default_config_def fresh_agent_def)
  moreover have "challenge_attempts
       (run (default_config\<lparr>MAX_CHALLENGE_ATTEMPTS := 2\<rparr>) timeouts_then_pass 0 fresh_agent) = 3"
    by (simp add: run.simps terminal_def iteration_def solve_def timeouts_then_pass_def
        timeout_round_def default_config_def fresh_agent_def Let_def)
  moreover from this have "state
       (run (default_config\<lparr>MAX_CHALLENGE_ATTEMPTS := 2\<rparr>) timeouts_then_pass 0 fresh_agent)
     = FAILURE"
    using attempt_limit_forces_failure [of "default_config\<lparr>MAX_CHALLENGE_ATTEMPTS := 2\<rparr>"
        _ fresh_agent timeouts_then_pass 0]
    by (simp add: terminal_def fresh_agent_def)
  ultimately show ?thesis by blast
qed

subsection \<open>The wait after a submission\<close>





subsection \<open>A dispatch that times out\<close>

text \<open>
  Claim C2, as the code has it. In state \<^verbatim>\<open>INIT\<close> or \<^verbatim>\<open>CHALLENGE_PENDING\<close> and within the
  attempt limit, a dispatch that times out reloads the page and sets the state to
  \<^verbatim>\<open>INIT\<close>, as a dispatch that returns \<^verbatim>\<open>False\<close> does while the reset budget lasts. It
  does not touch the budget: \<^verbatim>\<open>reset_count\<close> stays as it is and is not compared with
  \<^verbatim>\<open>MAX_RESETS\<close>, and the checkbox is not clicked again. A dispatch that returns
  \<^verbatim>\<open>False\<close> adds one to \<^verbatim>\<open>reset_count\<close>, and ends the session in \<^verbatim>\<open>FAILURE\<close>, without a
  reload, once the count passes \<^verbatim>\<open>MAX_RESETS\<close>.
\<close>

theorem dispatch_timeout_reloads:
  assumes "state s = INIT \<or> state s = CHALLENGE_PENDING"
    and "challenge_attempts s + 1 \<le> MAX_CHALLENGE_ATTEMPTS cfg"
    and "dispatch e = TimeoutError"
    and "dispatch e' = Returned False"
  shows "state (iteration cfg e s) = INIT
       \<and> reloads (iteration cfg e s) = reloads s + 1
       \<and> reset_count (iteration cfg e s) = reset_count s
       \<and> checkbox_clicks (iteration cfg e s) = checkbox_clicks s
       \<and> reset_count (iteration cfg e' s) = reset_count s + 1
       \<and> (if reset_count s + 1 \<le> MAX_RESETS cfg
           then state (iteration cfg e' s) = INIT \<and> reloads (iteration cfg e' s) = reloads s + 1
              \<and> checkbox_clicks (iteration cfg e' s) = checkbox_clicks s + 1
           else state (iteration cfg e' s) = FAILURE \<and> reloads (iteration cfg e' s) = reloads s)"
  using assms
  by (auto simp: iteration_def solve_def Let_def split: option.splits)

text \<open>
  A run of the theorem: from a new session with the default configuration, a timeout
  gives \<^verbatim>\<open>INIT\<close> with one reload and \<^verbatim>\<open>reset_count = 0\<close>; a returned \<^verbatim>\<open>False\<close> gives
  \<^verbatim>\<open>INIT\<close> with one reload, one click and \<^verbatim>\<open>reset_count = 1\<close>.
\<close>

theorem dispatch_timeout_reloads_witness:
  "iteration default_config timeout_round fresh_agent
     = fresh_agent\<lparr>challenge_attempts := 1, reloads := 1\<rparr>
   \<and> state (iteration default_config failure_round fresh_agent) = INIT
   \<and> reset_count (iteration default_config failure_round fresh_agent) = 1
   \<and> reloads (iteration default_config failure_round fresh_agent) = 1
   \<and> checkbox_clicks (iteration default_config failure_round fresh_agent) = 1"
proof -
  have "iteration default_config timeout_round fresh_agent
     = fresh_agent\<lparr>challenge_attempts := 1, reloads := 1\<rparr>"
    by (simp add: iteration_def solve_def timeout_round_def fresh_agent_def default_config_def
        Let_def)
  moreover have "state (iteration default_config failure_round fresh_agent) = INIT
   \<and> reset_count (iteration default_config failure_round fresh_agent) = 1
   \<and> reloads (iteration default_config failure_round fresh_agent) = 1
   \<and> checkbox_clicks (iteration default_config failure_round fresh_agent) = 1"
    using dispatch_timeout_reloads [of fresh_agent default_config timeout_round failure_round]
    by (simp add: fresh_agent_def default_config_def timeout_round_def failure_round_def)
  ultimately show ?thesis by blast
qed

text \<open>
  Claim C2, as it is stated, fails: the two cases can be told apart. With the default
  \<^verbatim>\<open>MAX_RESETS = 1\<close> and one reset already counted, a dispatch that returns \<^verbatim>\<open>False\<close>
  ends the session in \<^verbatim>\<open>FAILURE\<close> with \<^verbatim>\<open>reset_count = 2\<close>, a dispatch that times out
  goes back to \<^verbatim>\<open>INIT\<close> with \<^verbatim>\<open>reset_count = 1\<close>. A whole session whose first two
  dispatches time out and whose third round passes returns \<^verbatim>\<open>SUCCESS\<close>; with two
  returned \<^verbatim>\<open>False\<close> in their place it returns \<^verbatim>\<open>FAILURE\<close>.
\<close>

theorem dispatch_timeout_counterexample:
  "state (iteration default_config failure_round (fresh_agent\<lparr>reset_count := 1\<rparr>)) = FAILURE
   \<and> reset_count (iteration default_config failure_round (fresh_agent\<lparr>reset_count := 1\<rparr>)) = 2
   \<and> state (iteration default_config timeout_round (fresh_agent\<lparr>reset_count := 1\<rparr>)) = INIT
   \<and> reset_count (iteration default_config timeout_round (fresh_agent\<lparr>reset_count := 1\<rparr>)) = 1
   \<and> fst (wait_for_challenge default_config True timeouts_then_pass fresh_agent) = Signal_SUCCESS
   \<and> fst (wait_for_challenge default_config True failures_then_pass fresh_agent) = Signal_FAILURE"
  by (simp add: wait_for_challenge_def run.simps terminal_def iteration_def solve_def
      submitted_def cache_validated_response_def timeouts_then_pass_def failures_then_pass_def
      timeout_round_def failure_round_def passing_round_def fresh_agent_def default_config_def
      Let_def)

section \<open>Properties of the rotation scheduler\<close>

lemma priority_order_nonempty: "priority_order preferred_model \<noteq> []"
  by (simp add: priority_order_def model_priority_def split: option.splits)

lemma available_keys_answers:
  "fst (available_keys q s keys model)
     = map fst (filter (\<lambda>(key, exhausted). \<not> exhausted) (zip keys (answers q s keys model)))"
proof (induction keys arbitrary: s)
  case Nil
  then show ?case by simp
next
  case (Cons key keys)
  obtain exhausted s1 where ask: "q s key model = (exhausted, s1)"
    by (cases "q s key model")
  obtain rest s2 where rest: "available_keys q s1 keys model = (rest, s2)"
    by (cases "available_keys q s1 keys model")
  with Cons.IH [of s1] ask show ?case by simp
qed

lemma scan_models_find:
  "fst (scan_models q s api_keys models)
     = find (\<lambda>(model, keys). keys \<noteq> []) (ledger_reports q s api_keys models)"
proof (induction models arbitrary: s)
  case Nil
  then show ?case by simp
next
  case (Cons model models)
  obtain keys s1 where ak: "available_keys q s api_keys model = (keys, s1)"
    by (cases "available_keys q s api_keys model")
  then have keys: "map fst (filter (\<lambda>(key, exhausted). \<not> exhausted)
       (zip api_keys (answers q s api_keys model))) = keys"
    using available_keys_answers [of q s api_keys model] by simp
  show ?case
  proof (cases "keys = []")
    case True
    with Cons.IH [of s1] ak keys show ?thesis by simp
  next
    case False
    with ak keys show ?thesis by simp
  qed
qed

lemma ledger_reports_models: "map fst (ledger_reports q s api_keys models) = models"
  by (induction models arbitrary: s) simp_all

lemma available_keys_pure:
  assumes "\<And>s key model. q s key model = (exh key model, s)"
  shows "available_keys q s keys model = (filter (\<lambda>key. \<not> exh key model) keys, s)"
  by (induction keys arbitrary: s) (simp_all add: assms)

lemma ledger_reports_pure:
  assumes "\<And>s key model. q s key model = (exh key model, s)"
  shows "ledger_reports q s api_keys models
     = map (\<lambda>model. (model, filter (\<lambda>key. \<not> exh key model) api_keys)) models"
proof (induction models arbitrary: s)
  case Nil
  then show ?case by simp
next
  case (Cons model models)
  have ak: "available_keys q s api_keys model = (filter (\<lambda>key. \<not> exh key model) api_keys, s)"
    using assms by (rule available_keys_pure)
  then have "map fst (filter (\<lambda>(key, exhausted). \<not> exhausted)
      (zip api_keys (answers q s api_keys model)))
      = filter (\<lambda>key. \<not> exh key model) api_keys"
    using available_keys_answers [of q s api_keys model] by simp
  with Cons ak show ?case by simp
qed

lemma get_available_found:
  assumes "find (\<lambda>(model, keys). keys \<noteq> [])
             (ledger_reports q s api_keys (priority_order preferred_model)) = Some (model, keys)"
  shows "fst (get_available_model_and_keys q s api_keys preferred_model) = (Some model, keys)"
proof -
  obtain r s1 where sc: "scan_models q s api_keys (priority_order preferred_model) = (r, s1)"
    by (cases "scan_models q s api_keys (priority_order preferred_model)")
  with assms scan_models_find [of q s api_keys "priority_order preferred_model"]
  have "r = Some (model, keys)" by simp
  with sc show ?thesis by (simp add: get_available_model_and_keys_def)
qed

lemma get_available_fail_open:
  assumes "find (\<lambda>(model, keys). keys \<noteq> [])
             (ledger_reports q s api_keys (priority_order preferred_model)) = None"
  shows "fst (get_available_model_and_keys q s api_keys preferred_model)
     = (case api_keys of
          k0 # _ \<Rightarrow> (Some (hd (priority_order preferred_model)), [k0])
        | [] \<Rightarrow> (None, []))"
proof -
  obtain r s1 where sc: "scan_models q s api_keys (priority_order preferred_model) = (r, s1)"
    by (cases "scan_models q s api_keys (priority_order preferred_model)")
  with assms scan_models_find [of q s api_keys "priority_order preferred_model"]
  have "r = None" by simp
  with sc show ?thesis by (simp add: get_available_model_and_keys_def split: list.splits)
qed

text \<open>
  Claim C8. With a preferred model the order is that model followed by the models of
  the priority list other than it, in the order of the list; without one it is the
  priority list. The ledger reports, model by model in that order, the keys it answers
  "not exhausted", in the order of the configuration. The method returns the first of
  these reports whose key list is not empty. When every report is empty and there is a
  key, it returns the first model of the order with the first configured key alone.
  For a ledger whose answers depend on key and model only, the report of a model is the
  key list filtered by the answers.
\<close>

theorem select_candidate:
  assumes "order = priority_order preferred_model"
    and "reports = ledger_reports q s api_keys order"
  shows "(\<forall>p. preferred_model = Some p \<and> p \<noteq> [] \<longrightarrow>
            order = p # filter (\<lambda>m. m \<noteq> p) model_priority \<and> hd order = p)
       \<and> (preferred_model = None \<longrightarrow> order = model_priority)
       \<and> map fst reports = order
       \<and> (\<forall>model keys. find (\<lambda>(model, keys). keys \<noteq> []) reports = Some (model, keys) \<longrightarrow>
            fst (get_available_model_and_keys q s api_keys preferred_model) = (Some model, keys))
       \<and> (find (\<lambda>(model, keys). keys \<noteq> []) reports = None \<and> api_keys \<noteq> [] \<longrightarrow>
            fst (get_available_model_and_keys q s api_keys preferred_model)
              = (Some (hd order), [hd api_keys]))
       \<and> (\<forall>exh. (\<forall>s key model. q s key model = (exh key model, s)) \<longrightarrow>
            reports = map (\<lambda>model. (model, filter (\<lambda>key. \<not> exh key model) api_keys)) order)"
proof -
  have front: "order = p # filter (\<lambda>m. m \<noteq> p) model_priority \<and> hd order = p"
    if "preferred_model = Some p" and "p \<noteq> []" for p
    using that assms(1) by (simp add: priority_order_def)
  have plain: "order = model_priority" if "preferred_model = None"
    using that assms(1) by (simp add: priority_order_def)
  have models: "map fst reports = order"
    unfolding assms(2) by (rule ledger_reports_models)
  have found: "fst (get_available_model_and_keys q s api_keys preferred_model)
      = (Some model, keys)"
    if "find (\<lambda>(model, keys). keys \<noteq> []) reports = Some (model, keys)" for model keys
    using that unfolding assms by (rule get_available_found)
  have fail_open: "fst (get_available_model_and_keys q s api_keys preferred_model)
      = (Some (hd order), [hd api_keys])"
    if "find (\<lambda>(model, keys). keys \<noteq> []) reports = None" and "api_keys \<noteq> []"
    using get_available_fail_open [of q s api_keys preferred_model] that
    unfolding assms by (cases api_keys) simp_all
  have pure: "reports = map (\<lambda>model. (model, filter (\<lambda>key. \<not> exh key model) api_keys)) order"
    if "\<forall>s key model. q s key model = (exh key model, s)" for exh
    unfolding assms(2) using that by (intro ledger_reports_pure) simp
  from front plain models found fail_open pure show ?thesis
    by blast
qed

text \<open>
  A run of the theorem on the ledger above at 08:30 of the second day, preferred model
  \<^verbatim>\<open>gemini-2.5-flash-lite\<close>: the order is that model, \<^verbatim>\<open>gemini-2.5-flash\<close>,
  \<^verbatim>\<open>gemini-3-flash\<close>. With both keys configured, no key is free for the preferred model
  and \<^verbatim>\<open>key2\<close> is free for \<^verbatim>\<open>gemini-2.5-flash\<close>, which is returned with it. With
  \<^verbatim>\<open>key1\<close> alone every model is exhausted, and the preferred model comes back with
  \<^verbatim>\<open>key1\<close>.
\<close>

theorem select_candidate_witness:
  "priority_order (Some ''gemini-2.5-flash-lite'')
     = [''gemini-2.5-flash-lite'', ''gemini-2.5-flash'', ''gemini-3-flash'']
   \<and> ledger_reports (ask_ledger sample_fp 117000000000) sample_ledger [''key1'', ''key2'']
       (priority_order (Some ''gemini-2.5-flash-lite''))
     = [(''gemini-2.5-flash-lite'', []), (''gemini-2.5-flash'', [''key2'']),
        (''gemini-3-flash'', [''key2''])]
   \<and> fst (get_available_model_and_keys (ask_ledger sample_fp 117000000000) sample_ledger
          [''key1'', ''key2''] (Some ''gemini-2.5-flash-lite''))
     = (Some ''gemini-2.5-flash'', [''key2''])
   \<and> fst (get_available_model_and_keys (ask_ledger sample_fp 117000000000) sample_ledger
          [''key1''] (Some ''gemini-2.5-flash-lite''))
     = (Some ''gemini-2.5-flash-lite'', [''key1''])"
proof -
  note defs = priority_order_def model_priority_def ask_ledger_def sample_ledger_def
    is_exhausted_def check_reset_def reset_time_today_def day_def seconds_def
    generate_key_id_def sample_fp_def default_row_def truthy_def Let_def
  have order: "priority_order (Some ''gemini-2.5-flash-lite'')
     = [''gemini-2.5-flash-lite'', ''gemini-2.5-flash'', ''gemini-3-flash'']"
    by (simp add: defs)
  have two: "ledger_reports (ask_ledger sample_fp 117000000000) sample_ledger [''key1'', ''key2'']
       (priority_order (Some ''gemini-2.5-flash-lite''))
     = [(''gemini-2.5-flash-lite'', []), (''gemini-2.5-flash'', [''key2'']),
        (''gemini-3-flash'', [''key2''])]"
    by (simp add: defs)
  have one: "ledger_reports (ask_ledger sample_fp 117000000000) sample_ledger [''key1'']
       (priority_order (Some ''gemini-2.5-flash-lite''))
     = [(''gemini-2.5-flash-lite'', []), (''gemini-2.5-flash'', []), (''gemini-3-flash'', [])]"
    by (simp add: defs)
  have "fst (get_available_model_and_keys (ask_ledger sample_fp 117000000000) sample_ledger
          [''key1'', ''key2''] (Some ''gemini-2.5-flash-lite''))
     = (Some ''gemini-2.5-flash'', [''key2''])"
    using select_candidate [OF refl refl, where q = "ask_ledger sample_fp 117000000000"
        and s = sample_ledger and api_keys = "[''key1'', ''key2'']"
        and preferred_model = "Some ''gemini-2.5-flash-lite''"]
    unfolding two by simp
  moreover have "fst (get_available_model_and_keys (ask_ledger sample_fp 117000000000)
          sample_ledger [''key1''] (Some ''gemini-2.5-flash-lite''))
     = (Some ''gemini-2.5-flash-lite'', [''key1''])"
    using select_candidate [OF refl refl, where q = "ask_ledger sample_fp 117000000000"
        and s = sample_ledger and api_keys = "[''key1'']"
        and preferred_model = "Some ''gemini-2.5-flash-lite''"]
    unfolding one by (simp add: order)
  ultimately show ?thesis
    using order two by blast
qed

section \<open>Properties of the event interceptor\<close>

lemma drain_empty: "drain queue = []"
  by (induction queue) simp_all

lemma getcaptcha_pass_replaces:
  assumes "\<not> suffix ''/hsw.js'' (url r)" and "sublist ''/getcaptcha/'' (url r)"
    and "content_type r = Some ''application/json''"
    and "json r = Some data" and "pass_field data" and "as_response data = Some cr"
  shows "captcha_response_queue (task_handler r Q) = [cr]"
  using assms by (simp add: task_handler_def put_nowait_def drain_empty)

lemma checkcaptcha_appends:
  assumes "\<not> suffix ''/hsw.js'' (url r)" and "\<not> sublist ''/getcaptcha/'' (url r)"
    and "sublist ''/checkcaptcha/'' (url r)"
    and "json r = Some data" and "as_response data = Some cr"
  shows "captcha_response_queue (task_handler r Q) = captcha_response_queue Q @ [cr]"
  using assms by (simp add: task_handler_def put_nowait_def)

text \<open>
  Claim C9 holds for a verdict that comes in a \<^verbatim>\<open>getcaptcha\<close> answer and fails for one
  that comes in a \<^verbatim>\<open>checkcaptcha\<close> answer: that branch puts the verdict on the queue
  without draining it. Two \<^verbatim>\<open>checkcaptcha\<close> answers in a row, a failing verdict and then
  a passing one, leave both on the queue with the old one at the head; the same
  passing verdict in a \<^verbatim>\<open>getcaptcha\<close> answer would have left it alone.
\<close>

theorem checkcaptcha_keeps_stale_verdict:
  "captcha_response_queue
     (task_handler (checkcaptcha_response passing_verdict)
        (task_handler (checkcaptcha_response stale_verdict)
           \<lparr>captcha_response_queue = [], captcha_payload_queue = []\<rparr>))
     = [stale_verdict, passing_verdict]
   \<and> captcha_response_queue
     (task_handler (getcaptcha_pass_response passing_verdict)
        (task_handler (checkcaptcha_response stale_verdict)
           \<lparr>captcha_response_queue = [], captcha_payload_queue = []\<rparr>))
     = [passing_verdict]"
  by (simp add: task_handler_def checkcaptcha_response_def getcaptcha_pass_response_def
      put_nowait_def sublist_code suffix_to_prefix)

end
